theory Spec2Isabelle
  imports Main
begin

section \<open>Smart Study Planner: the stores and the statements run against them\<close>

text \<open>
  The application keeps two SQLite tables in one file, \<^verbatim>\<open>users\<close> and \<^verbatim>\<open>tasks\<close>, and
  every handler runs one or two SQL statements against them. A table is modelled as the
  list of its rows in rowid order, together with the counter that \<^verbatim>\<open>AUTOINCREMENT\<close>
  keeps in \<^verbatim>\<open>sqlite_sequence\<close>. Every handler takes the table and returns the table
  it leaves behind.
\<close>

subsection \<open>Data model\<close>

text \<open>
  A due date is a Python \<^verbatim>\<open>datetime.date\<close>. The \<^verbatim>\<open>sqlite3\<close> module stores it as
  the text \<^verbatim>\<open>YYYY-MM-DD\<close> and SQLite compares two such texts bytewise; on this
  fixed-width, zero-padded format that is the chronological order. A date is therefore
  modelled by its day number (\<^verbatim>\<open>date.toordinal()\<close>), so that the day before \<open>d\<close> is
  \<open>d - 1\<close>. The column is nullable: rows that predate the \<^verbatim>\<open>ALTER TABLE\<close> upgrade
  carry \<^verbatim>\<open>NULL\<close>.
\<close>

type_synonym date = int

text \<open>
  \<^verbatim>\<open>tasks(id, user_id, task, due_date, priority, status)\<close>. The columns \<^verbatim>\<open>priority\<close> and
  \<^verbatim>\<open>status\<close> are \<^verbatim>\<open>TEXT\<close>, and the code reads and writes them as the strings
  \<^verbatim>\<open>'Pending'\<close>, \<^verbatim>\<open>'Completed'\<close>, \<^verbatim>\<open>'Overdue'\<close>.
\<close>

record task_row =
  t_id :: nat
  user_id :: nat
  task :: string
  due_date :: "date option"
  priority :: string
  status :: string

record tasks_tbl =
  t_rows :: "task_row list"
  t_seq :: nat

text \<open>
  The rowid an \<^verbatim>\<open>INTEGER PRIMARY KEY AUTOINCREMENT\<close> column gives to a new row: one more
  than the larger of the largest rowid in the table and the recorded sequence value.
  Rowids are natural numbers here; SQLite's bound of \<open>2^63 - 1\<close> is out of reach of a
  table that only ever grows by one row per statement.
\<close>

fun max_rowid :: "nat list \<Rightarrow> nat" where
  "max_rowid [] = 0"
| "max_rowid (i # is) = max i (max_rowid is)"

definition next_rowid :: "nat list \<Rightarrow> nat \<Rightarrow> nat" where
  "next_rowid ids sq = Suc (max sq (max_rowid ids))"

subsection \<open>The status reconciler\<close>

text \<open>
  \<^verbatim>\<open>due_date < ?\<close> in a \<^verbatim>\<open>WHERE\<close> clause: a comparison with \<^verbatim>\<open>NULL\<close> is not true,
  so the row is not selected.
\<close>

fun sql_lt :: "date option \<Rightarrow> date \<Rightarrow> bool" where
  "sql_lt None today = False"
| "sql_lt (Some d) today = (d < today)"

text \<open>
  \<^verbatim>\<open>update_overdue_tasks(user_id)\<close>:
  \<^verbatim>\<open>UPDATE tasks SET status='Overdue' WHERE user_id=? AND status='Pending' AND due_date < ?\<close>
  with the parameters \<^verbatim>\<open>(user_id, today)\<close>. The source reads \<^verbatim>\<open>date.today()\<close>; here
  the date is an argument.
\<close>

definition update_overdue_tasks :: "nat \<Rightarrow> date \<Rightarrow> tasks_tbl \<Rightarrow> tasks_tbl" where
  "update_overdue_tasks uid today tbl =
     tbl\<lparr>t_rows :=
       map (\<lambda>r. if user_id r = uid \<and> status r = ''Pending'' \<and> sql_lt (due_date r) today
                then r\<lparr>status := ''Overdue''\<rparr> else r)
           (t_rows tbl)\<rparr>"

subsection \<open>The task store\<close>

text \<open>
  The add-task block of the page:
  \<^verbatim>\<open>INSERT INTO tasks (user_id, task, due_date, priority, status) VALUES (?, ?, ?, ?, ?)\<close>
  with \<^verbatim>\<open>(user_id, task, due_date, priority, "Pending")\<close>. The values of the three widgets
  go into the row as they are; there is no check between the button and the statement.
  A due date of \<^verbatim>\<open>None\<close> would be stored as \<^verbatim>\<open>NULL\<close>.
\<close>

definition add_task :: "nat \<Rightarrow> string \<Rightarrow> date option \<Rightarrow> string \<Rightarrow> tasks_tbl \<Rightarrow> tasks_tbl" where
  "add_task uid txt due prio tbl =
     (let new_id = next_rowid (map t_id (t_rows tbl)) (t_seq tbl)
      in \<lparr>t_rows = t_rows tbl @
            [\<lparr>t_id = new_id, user_id = uid, task = txt, due_date = due,
              priority = prio, status = ''Pending''\<rparr>],
          t_seq = new_id\<rparr>)"

text \<open>
  The statement behind the Complete button:
  \<^verbatim>\<open>UPDATE tasks SET status=? WHERE id=? AND user_id=?\<close> with
  \<^verbatim>\<open>("Completed", row['id'], user_id)\<close>.
\<close>

definition complete_stmt :: "nat \<Rightarrow> nat \<Rightarrow> tasks_tbl \<Rightarrow> tasks_tbl" where
  "complete_stmt tid uid tbl =
     tbl\<lparr>t_rows :=
       map (\<lambda>r. if t_id r = tid \<and> user_id r = uid then r\<lparr>status := ''Completed''\<rparr> else r)
           (t_rows tbl)\<rparr>"

text \<open>
  The statement behind the Delete button:
  \<^verbatim>\<open>DELETE FROM tasks WHERE id=? AND user_id=?\<close> with \<^verbatim>\<open>(row['id'], user_id)\<close>.
  Deleting rows leaves \<^verbatim>\<open>sqlite_sequence\<close> as it is.
\<close>

definition delete_stmt :: "nat \<Rightarrow> nat \<Rightarrow> tasks_tbl \<Rightarrow> tasks_tbl" where
  "delete_stmt tid uid tbl =
     tbl\<lparr>t_rows := filter (\<lambda>r. \<not> (t_id r = tid \<and> user_id r = uid)) (t_rows tbl)\<rparr>"

text \<open>\<^verbatim>\<open>SELECT * FROM tasks WHERE user_id=?\<close>, the rows the page works on.\<close>

definition fetch_tasks :: "nat \<Rightarrow> tasks_tbl \<Rightarrow> task_row list" where
  "fetch_tasks uid tbl = filter (\<lambda>r. user_id r = uid) (t_rows tbl)"

text \<open>
  \<^verbatim>\<open>display_tasks(df, user_id)\<close>. Each displayed row gets a Complete button with key
  \<^verbatim>\<open>comp_<id>\<close> (only when its status is not Completed) and a Delete button with key
  \<^verbatim>\<open>del_<id>\<close>. At most one button is pressed in a run of the page; the loop runs the
  statement of the first row whose button it is and then \<^verbatim>\<open>st.rerun()\<close> leaves the
  function.
\<close>

datatype click = CompleteBtn nat | DeleteBtn nat

fun display_tasks :: "task_row list \<Rightarrow> nat \<Rightarrow> click option \<Rightarrow> tasks_tbl \<Rightarrow> tasks_tbl" where
  "display_tasks [] uid pressed tbl = tbl"
| "display_tasks (row # df) uid pressed tbl =
     (if status row \<noteq> ''Completed'' \<and> pressed = Some (CompleteBtn (t_id row))
      then complete_stmt (t_id row) uid tbl
      else if pressed = Some (DeleteBtn (t_id row))
      then delete_stmt (t_id row) uid tbl
      else display_tasks df uid pressed tbl)"

text \<open>The four operations that write to the task table, as one step function.\<close>

datatype task_op =
    Reconcile nat date
  | Complete nat nat
  | Delete nat nat
  | Add nat string "date option" string

fun apply_op :: "task_op \<Rightarrow> tasks_tbl \<Rightarrow> tasks_tbl" where
  "apply_op (Reconcile uid today) tbl = update_overdue_tasks uid today tbl"
| "apply_op (Complete tid uid) tbl = complete_stmt tid uid tbl"
| "apply_op (Delete tid uid) tbl = delete_stmt tid uid tbl"
| "apply_op (Add uid txt due prio) tbl = add_task uid txt due prio tbl"

subsection \<open>The CSV export\<close>

text \<open>
  The column order of the \<^verbatim>\<open>tasks\<close> table depends on who created it. The page's
  \<^verbatim>\<open>create_tables\<close> declares \<^verbatim>\<open>id, user_id, task, due_date, priority, status\<close>. A table
  first created by \<^verbatim>\<open>db.py\<close> has \<^verbatim>\<open>id, user_id, task, status\<close>; the upgrade block at the
  top of the page then appends \<^verbatim>\<open>due_date\<close> and \<^verbatim>\<open>priority\<close> with \<^verbatim>\<open>ALTER TABLE\<close> (its
  third statement fails, \<^verbatim>\<open>status\<close> being there already, and the failure is swallowed),
  which leaves \<^verbatim>\<open>id, user_id, task, status, due_date, priority\<close>. The statements of the
  task store name their columns and do not depend on the order; \<^verbatim>\<open>SELECT *\<close> does.
\<close>

datatype tasks_layout = PageLayout | UpgradedLayout

record tasks_file =
  f_layout :: tasks_layout
  f_table :: tasks_tbl

text \<open>
  The values in a fetched row and in a data frame: integers, texts, a date as it is
  stored (the text \<^verbatim>\<open>YYYY-MM-DD\<close>), \<^verbatim>\<open>NULL\<close>, and what \<^verbatim>\<open>pd.to_datetime\<close> makes of a
  value, a timestamp or \<^verbatim>\<open>NaT\<close>.
\<close>

datatype cell = IntCell nat | TextCell string | DateText date | NullCell | Timestamp date | NaT

definition date_cell :: "date option \<Rightarrow> cell" where
  "date_cell dd = (case dd of None \<Rightarrow> NullCell | Some d \<Rightarrow> DateText d)"

text \<open>One row of \<^verbatim>\<open>SELECT * FROM tasks\<close>: the values in the column order of the table.\<close>

fun select_star :: "tasks_layout \<Rightarrow> task_row \<Rightarrow> cell list" where
  "select_star PageLayout r =
     [IntCell (t_id r), IntCell (user_id r), TextCell (task r),
      date_cell (due_date r), TextCell (priority r), TextCell (status r)]"
| "select_star UpgradedLayout r =
     [IntCell (t_id r), IntCell (user_id r), TextCell (task r),
      TextCell (status r), date_cell (due_date r), TextCell (priority r)]"

text \<open>
  \<^verbatim>\<open>pd.DataFrame(tasks, columns=["id", "user_id", "task", "due_date", "priority",
  "status"])\<close>: the labels are given to the fetched values by position.
\<close>

record data_frame =
  df_cols :: "string list"
  df_rows :: "cell list list"

definition df_columns :: "string list" where
  "df_columns = [''id'', ''user_id'', ''task'', ''due_date'', ''priority'', ''status'']"

definition make_frame :: "cell list list \<Rightarrow> data_frame" where
  "make_frame tasks = \<lparr>df_cols = df_columns, df_rows = tasks\<rparr>"

text \<open>The position of a label among the columns of a frame.\<close>

definition column_pos :: "string \<Rightarrow> data_frame \<Rightarrow> nat" where
  "column_pos label df = length (takeWhile (\<lambda>c. c \<noteq> label) (df_cols df))"

text \<open>
  \<^verbatim>\<open>df['due_date'] = pd.to_datetime(df['due_date'], errors='coerce')\<close>. What pandas makes
  of one value is an argument (\<open>to_dt\<close>).
\<close>

definition convert_due_date :: "(cell \<Rightarrow> cell) \<Rightarrow> data_frame \<Rightarrow> data_frame" where
  "convert_due_date to_dt df =
     df\<lparr>df_rows :=
       map (\<lambda>row. row[column_pos ''due_date'' df := to_dt (row ! column_pos ''due_date'' df)])
           (df_rows df)\<rparr>"

text \<open>
  The status selector: \<^verbatim>\<open>df if status_filter=="All" else df[df['status']==status_filter]\<close>.
\<close>

definition filter_df :: "string \<Rightarrow> data_frame \<Rightarrow> data_frame" where
  "filter_df status_filter df =
     (if status_filter = ''All'' then df
      else df\<lparr>df_rows :=
             filter (\<lambda>row. row ! column_pos ''status'' df = TextCell status_filter) (df_rows df)\<rparr>)"

text \<open>
  \<^verbatim>\<open>df.to_csv(index=False)\<close>: the labels as the header record, then one record per row
  of the frame. Quoting and joining the fields is the CSV writer's business.
\<close>

record csv_doc =
  csv_header :: "string list"
  csv_records :: "cell list list"

definition to_csv :: "data_frame \<Rightarrow> csv_doc" where
  "to_csv df = \<lparr>csv_header = df_cols df, csv_records = df_rows df\<rparr>"

text \<open>
  The page from the fetch to the download: the rows of the user are fetched and framed;
  under \<^verbatim>\<open>if not df.empty\<close> the due-date column is converted, the status selector
  narrows what \<open>display_tasks\<close> shows (\<^verbatim>\<open>df_filtered\<close>), and the download is made from
  \<^verbatim>\<open>df\<close>. With an empty frame the page only says that there are no tasks yet.
\<close>

definition export_csv ::
  "(cell \<Rightarrow> cell) \<Rightarrow> nat \<Rightarrow> string \<Rightarrow> tasks_file \<Rightarrow> csv_doc option" where
  "export_csv to_dt uid status_filter file =
     (let tasks = map (select_star (f_layout file)) (fetch_tasks uid (f_table file));
          df = make_frame tasks
      in if df_rows df = [] then None
         else (let df = convert_due_date to_dt df;
                   df_filtered = filter_df status_filter df
               in Some (to_csv df)))"

subsection \<open>The credential store\<close>

text \<open>
  \<^verbatim>\<open>users(id, username, email, password)\<close>. The two modules declare the table
  differently: \<^verbatim>\<open>db.py\<close> has \<^verbatim>\<open>username TEXT UNIQUE NOT NULL\<close>, the page has
  \<^verbatim>\<open>username TEXT NOT NULL\<close>; \<^verbatim>\<open>email\<close> is \<^verbatim>\<open>UNIQUE\<close> in both. Both create the
  table with \<^verbatim>\<open>CREATE TABLE IF NOT EXISTS\<close>, so the declaration that ran first on the
  file stays in force. The table carries which one it was.
\<close>

record user_row =
  u_id :: nat
  username :: string
  email :: string
  password :: string

record users_tbl =
  u_rows :: "user_row list"
  u_seq :: nat
  username_unique :: bool

fun create_tables :: "users_tbl option \<Rightarrow> users_tbl" where
  "create_tables None = \<lparr>u_rows = [], u_seq = 0, username_unique = False\<rparr>"
| "create_tables (Some tbl) = tbl"

fun db_create_tables :: "users_tbl option \<Rightarrow> users_tbl" where
  "db_create_tables None = \<lparr>u_rows = [], u_seq = 0, username_unique = True\<rparr>"
| "db_create_tables (Some tbl) = tbl"

datatype sql_error = IntegrityError

text \<open>
  \<^verbatim>\<open>INSERT INTO users (username, email, password) VALUES (?, ?, ?)\<close>. The statement
  fails with \<^verbatim>\<open>sqlite3.IntegrityError\<close>, writing nothing, when a \<^verbatim>\<open>UNIQUE\<close> column of
  the table already holds the value.
\<close>

definition insert_user :: "string \<Rightarrow> string \<Rightarrow> string \<Rightarrow> users_tbl \<Rightarrow> sql_error + users_tbl" where
  "insert_user un em pw tbl =
     (if (username_unique tbl \<and> un \<in> set (map username (u_rows tbl)))
         \<or> em \<in> set (map email (u_rows tbl))
      then Inl IntegrityError
      else (let new_id = next_rowid (map u_id (u_rows tbl)) (u_seq tbl)
            in Inr (tbl\<lparr>u_rows := u_rows tbl @
                          [\<lparr>u_id = new_id, username = un, email = em, password = pw\<rparr>],
                        u_seq := new_id\<rparr>)))"

text \<open>\<^verbatim>\<open>SELECT * FROM users WHERE email=?\<close> followed by \<^verbatim>\<open>fetchone()\<close>.\<close>

definition select_by_email :: "string \<Rightarrow> users_tbl \<Rightarrow> user_row option" where
  "select_by_email em tbl = find (\<lambda>u. email u = em) (u_rows tbl)"

text \<open>
  \<^verbatim>\<open>register_user\<close> of \<^verbatim>\<open>smart_study_planner.py\<close>: look the email up, return
  \<^verbatim>\<open>False\<close> when a row has it, insert otherwise. The insert is not guarded, so an
  integrity error would leave the function as an exception (\<open>Inl\<close>). The hash function
  \<^verbatim>\<open>bcrypt.hashpw\<close> and the salt drawn by \<^verbatim>\<open>bcrypt.gensalt()\<close> are arguments.
\<close>

definition register_user ::
  "(string \<Rightarrow> string \<Rightarrow> string) \<Rightarrow> string \<Rightarrow> string \<Rightarrow> string \<Rightarrow> string \<Rightarrow> users_tbl
   \<Rightarrow> sql_error + (bool \<times> users_tbl)" where
  "register_user hashpw salt un em pw tbl =
     (case select_by_email em tbl of
        Some u \<Rightarrow> Inr (False, tbl)
      | None \<Rightarrow>
          (let hashed = hashpw pw salt
           in case insert_user un em hashed tbl of
                Inl e \<Rightarrow> Inl e
              | Inr tbl' \<Rightarrow> Inr (True, tbl')))"

text \<open>
  \<^verbatim>\<open>register_user\<close> of \<^verbatim>\<open>auth.py\<close>: hash, insert, return \<^verbatim>\<open>True\<close>; an integrity error
  is caught and turned into \<^verbatim>\<open>False\<close>.
\<close>

definition auth_register_user ::
  "(string \<Rightarrow> string \<Rightarrow> string) \<Rightarrow> string \<Rightarrow> string \<Rightarrow> string \<Rightarrow> string \<Rightarrow> users_tbl
   \<Rightarrow> bool \<times> users_tbl" where
  "auth_register_user hashpw salt un em pw tbl =
     (let hashed = hashpw pw salt
      in case insert_user un em hashed tbl of
           Inr tbl' \<Rightarrow> (True, tbl')
         | Inl IntegrityError \<Rightarrow> (False, tbl))"

text \<open>
  \<^verbatim>\<open>login_user\<close> of \<^verbatim>\<open>smart_study_planner.py\<close>: fetch the row with the email and, when
  there is one and \<^verbatim>\<open>bcrypt.checkpw\<close> accepts the password against the stored hash,
  return \<^verbatim>\<open>(id, username, email)\<close>, else \<^verbatim>\<open>None\<close>. The verifier is an argument. The
  table is returned too, to say what the call leaves in the store.
\<close>

definition login_user ::
  "(string \<Rightarrow> string \<Rightarrow> bool) \<Rightarrow> string \<Rightarrow> string \<Rightarrow> users_tbl
   \<Rightarrow> (nat \<times> string \<times> string) option \<times> users_tbl" where
  "login_user checkpw em pw tbl =
     (case select_by_email em tbl of
        Some u \<Rightarrow> if checkpw pw (password u)
                  then (Some (u_id u, username u, email u), tbl) else (None, tbl)
      | None \<Rightarrow> (None, tbl))"

text \<open>\<^verbatim>\<open>login_user\<close> of \<^verbatim>\<open>auth.py\<close>: the same, returning the whole row.\<close>

definition auth_login_user ::
  "(string \<Rightarrow> string \<Rightarrow> bool) \<Rightarrow> string \<Rightarrow> string \<Rightarrow> users_tbl
   \<Rightarrow> user_row option \<times> users_tbl" where
  "auth_login_user checkpw em pw tbl =
     (case select_by_email em tbl of
        Some u \<Rightarrow> if checkpw pw (password u) then (Some u, tbl) else (None, tbl)
      | None \<Rightarrow> (None, tbl))"

text \<open>
  What the constraints of the table guarantee about its rows: ids and emails are
  pairwise different, and so are usernames when the column is declared \<^verbatim>\<open>UNIQUE\<close>.
\<close>

definition users_ok :: "users_tbl \<Rightarrow> bool" where
  "users_ok tbl \<longleftrightarrow>
     distinct (map u_id (u_rows tbl)) \<and> distinct (map email (u_rows tbl)) \<and>
     (username_unique tbl \<longrightarrow> distinct (map username (u_rows tbl)))"

subsection \<open>Sample tables\<close>

text \<open>Two small tables on which the theorems below are instantiated.\<close>

definition alice_task :: task_row where
  "alice_task = \<lparr>t_id = 1, user_id = 7, task = ''Read chapter 1'', due_date = Some 99,
                  priority = ''High'', status = ''Pending''\<rparr>"

definition bob_task :: task_row where
  "bob_task = \<lparr>t_id = 2, user_id = 8, task = ''Essay'', due_date = None,
                priority = ''Low'', status = ''Pending''\<rparr>"

definition sample_tasks :: tasks_tbl where
  "sample_tasks = \<lparr>t_rows = [alice_task, bob_task], t_seq = 2\<rparr>"

text \<open>A stand-in for the conversion of one value by \<^verbatim>\<open>pd.to_datetime\<close>.\<close>

fun sample_to_datetime :: "cell \<Rightarrow> cell" where
  "sample_to_datetime (DateText d) = Timestamp d"
| "sample_to_datetime NullCell = NaT"
| "sample_to_datetime (TextCell s) = NaT"
| "sample_to_datetime c = c"

text \<open>A stand-in for the hash function and a users table holding one user.\<close>

definition sample_hashpw :: "string \<Rightarrow> string \<Rightarrow> string" where
  "sample_hashpw pw salt = salt @ pw"

definition sample_checkpw :: "string \<Rightarrow> string \<Rightarrow> bool" where
  "sample_checkpw pw hashed = (drop 2 hashed = pw)"

definition alice :: user_row where
  "alice = \<lparr>u_id = 1, username = ''alice'', email = ''alice@x.com'', password = ''s1secret1''\<rparr>"

definition sample_users :: "bool \<Rightarrow> users_tbl" where
  "sample_users uniq = \<lparr>u_rows = [alice], u_seq = 1, username_unique = uniq\<rparr>"

section \<open>Properties of the reconciler\<close>

lemma length_update_overdue_tasks:
  "length (t_rows (update_overdue_tasks uid today tbl)) = length (t_rows tbl)"
  by (simp add: update_overdue_tasks_def)

lemma nth_update_overdue_tasks:
  assumes "i < length (t_rows tbl)"
  shows "t_rows (update_overdue_tasks uid today tbl) ! i =
         (let r = t_rows tbl ! i in
          if user_id r = uid \<and> status r = ''Pending'' \<and> sql_lt (due_date r) today
          then r\<lparr>status := ''Overdue''\<rparr> else r)"
  using assms by (simp add: update_overdue_tasks_def Let_def)

lemma sql_lt_iff: "sql_lt dd today \<longleftrightarrow> (\<exists>d. dd = Some d \<and> d < today)"
  by (cases dd) simp_all

text \<open>
  C1. Reconciliation for user \<open>uid\<close> on day \<open>today\<close> keeps every row in its place and
  changes exactly the rows owned by \<open>uid\<close> whose status is Pending and whose due date is
  strictly before \<open>today\<close>: each of those gets status Overdue and nothing else changes,
  every other row is left as it was. In particular a Pending row of \<open>uid\<close> due on
  \<open>today - 1\<close> becomes Overdue, and a row without a due date is never touched.
\<close>

theorem update_overdue_tasks_exact:
  assumes "i < length (t_rows tbl)"
  shows "length (t_rows (update_overdue_tasks uid today tbl)) = length (t_rows tbl) \<and>
    t_seq (update_overdue_tasks uid today tbl) = t_seq tbl \<and>
    (let r = t_rows tbl ! i; r' = t_rows (update_overdue_tasks uid today tbl) ! i in
       (user_id r = uid \<and> status r = ''Pending'' \<and> (\<exists>d. due_date r = Some d \<and> d < today)
          \<longrightarrow> r' = r\<lparr>status := ''Overdue''\<rparr>) \<and>
       (\<not> (user_id r = uid \<and> status r = ''Pending'' \<and> (\<exists>d. due_date r = Some d \<and> d < today))
          \<longrightarrow> r' = r) \<and>
       (user_id r = uid \<and> status r = ''Pending'' \<and> due_date r = Some (today - 1)
          \<longrightarrow> status r' = ''Overdue'') \<and>
       (due_date r = None \<longrightarrow> r' = r))"
proof -
  have "t_seq (update_overdue_tasks uid today tbl) = t_seq tbl"
    by (simp add: update_overdue_tasks_def)
  then show ?thesis
    using assms
    by (auto simp: nth_update_overdue_tasks length_update_overdue_tasks Let_def sql_lt_iff)
qed

theorem update_overdue_tasks_exact_witness:
  "(let tbl = \<lparr>t_rows =
        [\<lparr>t_id = 1, user_id = 7, task = ''Read chapter 1'', due_date = Some 99,
          priority = ''High'', status = ''Pending''\<rparr>,
         \<lparr>t_id = 2, user_id = 7, task = ''Revise'', due_date = None,
          priority = ''Low'', status = ''Pending''\<rparr>], t_seq = 2\<rparr>
    in (0::nat) < length (t_rows tbl) \<and> (1::nat) < length (t_rows tbl) \<and>
       map status (t_rows (update_overdue_tasks 7 100 tbl)) = [''Overdue'', ''Pending''] \<and>
       t_rows (update_overdue_tasks 7 100 tbl) ! 0 = (t_rows tbl ! 0)\<lparr>status := ''Overdue''\<rparr> \<and>
       t_rows (update_overdue_tasks 7 100 tbl) ! 1 = t_rows tbl ! 1)"
  using update_overdue_tasks_exact [of 0 "\<lparr>t_rows =
        [\<lparr>t_id = 1, user_id = 7, task = ''Read chapter 1'', due_date = Some 99,
          priority = ''High'', status = ''Pending''\<rparr>,
         \<lparr>t_id = 2, user_id = 7, task = ''Revise'', due_date = None,
          priority = ''Low'', status = ''Pending''\<rparr>], t_seq = 2\<rparr>" 7 100]
    update_overdue_tasks_exact [of 1 "\<lparr>t_rows =
        [\<lparr>t_id = 1, user_id = 7, task = ''Read chapter 1'', due_date = Some 99,
          priority = ''High'', status = ''Pending''\<rparr>,
         \<lparr>t_id = 2, user_id = 7, task = ''Revise'', due_date = None,
          priority = ''Low'', status = ''Pending''\<rparr>], t_seq = 2\<rparr>" 7 100]
  by (simp add: update_overdue_tasks_def Let_def)

text \<open>
  C2. Reconciliation is idempotent: a second run for the same user on the same day
  returns the table the first run left.
\<close>

theorem update_overdue_tasks_idempotent:
  "update_overdue_tasks uid today (update_overdue_tasks uid today tbl) =
   update_overdue_tasks uid today tbl"
  by (simp add: update_overdue_tasks_def)

text \<open>
  C3. Reconciliation never changes a row whose status is not Pending, whoever owns it
  and whatever the day is; so a Completed row stays Completed and an Overdue row stays
  Overdue.
\<close>

theorem update_overdue_tasks_only_pending:
  assumes "i < length (t_rows tbl)" and "status (t_rows tbl ! i) \<noteq> ''Pending''"
  shows "t_rows (update_overdue_tasks uid today tbl) ! i = t_rows tbl ! i"
  using assms by (simp add: nth_update_overdue_tasks Let_def)

theorem update_overdue_tasks_only_pending_witness:
  "(let tbl = \<lparr>t_rows =
        [\<lparr>t_id = 1, user_id = 7, task = ''Read chapter 1'', due_date = Some 99,
          priority = ''High'', status = ''Completed''\<rparr>], t_seq = 1\<rparr>
    in (0::nat) < length (t_rows tbl) \<and> status (t_rows tbl ! 0) \<noteq> ''Pending'' \<and>
       user_id (t_rows tbl ! 0) = 7 \<and> sql_lt (due_date (t_rows tbl ! 0)) 100 \<and>
       status (t_rows (update_overdue_tasks 7 100 tbl) ! 0) = ''Completed'')"
  using update_overdue_tasks_only_pending [of 0 "\<lparr>t_rows =
        [\<lparr>t_id = 1, user_id = 7, task = ''Read chapter 1'', due_date = Some 99,
          priority = ''High'', status = ''Completed''\<rparr>], t_seq = 1\<rparr>" 7 100]
  by (simp add: Let_def)

section \<open>Properties of the task store\<close>

lemma le_max_rowid: "i \<in> set ids \<Longrightarrow> i \<le> max_rowid ids"
  by (induction ids) auto

lemma next_rowid_fresh: "next_rowid ids sq \<notin> set ids"
proof
  assume "next_rowid ids sq \<in> set ids"
  then have "next_rowid ids sq \<le> max_rowid ids" by (rule le_max_rowid)
  then show False by (simp add: next_rowid_def)
qed

lemma same_id_same_row:
  assumes "distinct (map t_id rows)" and "r \<in> set rows" and "x \<in> set rows"
    and "t_id x = t_id r"
  shows "x = r"
  using assms by (meson distinct_map inj_onD)

lemma complete_stmt_not_owner:
  assumes "distinct (map t_id (t_rows tbl))" and "r \<in> set (t_rows tbl)" and "user_id r \<noteq> uid"
  shows "complete_stmt (t_id r) uid tbl = tbl"
proof -
  have "\<And>x. x \<in> set (t_rows tbl) \<Longrightarrow> \<not> (t_id x = t_id r \<and> user_id x = uid)"
    using assms same_id_same_row by blast
  then have "map (\<lambda>x. if t_id x = t_id r \<and> user_id x = uid then x\<lparr>status := ''Completed''\<rparr> else x)
               (t_rows tbl) = t_rows tbl"
    by (intro map_idI) auto
  then show ?thesis by (simp add: complete_stmt_def)
qed

lemma delete_stmt_not_owner:
  assumes "distinct (map t_id (t_rows tbl))" and "r \<in> set (t_rows tbl)" and "user_id r \<noteq> uid"
  shows "delete_stmt (t_id r) uid tbl = tbl"
proof -
  have "\<And>x. x \<in> set (t_rows tbl) \<Longrightarrow> \<not> (t_id x = t_id r \<and> user_id x = uid)"
    using assms same_id_same_row by blast
  then have "filter (\<lambda>x. \<not> (t_id x = t_id r \<and> user_id x = uid)) (t_rows tbl) = t_rows tbl"
    by (simp add: filter_id_conv)
  then show ?thesis by (simp add: delete_stmt_def)
qed

lemma display_tasks_cases:
  "display_tasks df uid pressed tbl = tbl \<or>
   (\<exists>tid. pressed = Some (CompleteBtn tid) \<and> display_tasks df uid pressed tbl = complete_stmt tid uid tbl) \<or>
   (\<exists>tid. pressed = Some (DeleteBtn tid) \<and> display_tasks df uid pressed tbl = delete_stmt tid uid tbl)"
  by (induction df) auto

text \<open>
  C4. Ownership isolation. Row ids are a primary key. When a row \<open>r\<close> of the table is
  not owned by \<open>uid\<close>, the Complete statement and the Delete statement run by \<open>uid\<close> on
  the id of \<open>r\<close> return the table as it was: \<open>r\<close> is unchanged and so is every other row.
  The same holds for \<open>display_tasks\<close> run for \<open>uid\<close> with the Complete or the Delete
  button of that id pressed, whatever frame it displays.
\<close>

theorem ownership_isolation:
  assumes "distinct (map t_id (t_rows tbl))" and "r \<in> set (t_rows tbl)" and "user_id r \<noteq> uid"
  shows "complete_stmt (t_id r) uid tbl = tbl \<and> delete_stmt (t_id r) uid tbl = tbl \<and>
         display_tasks df uid (Some (CompleteBtn (t_id r))) tbl = tbl \<and>
         display_tasks df uid (Some (DeleteBtn (t_id r))) tbl = tbl"
proof -
  have c: "complete_stmt (t_id r) uid tbl = tbl"
    using assms by (rule complete_stmt_not_owner)
  have d: "delete_stmt (t_id r) uid tbl = tbl"
    using assms by (rule delete_stmt_not_owner)
  have "display_tasks df uid (Some (CompleteBtn (t_id r))) tbl = tbl"
    using display_tasks_cases [of df uid "Some (CompleteBtn (t_id r))" tbl] c by auto
  moreover have "display_tasks df uid (Some (DeleteBtn (t_id r))) tbl = tbl"
    using display_tasks_cases [of df uid "Some (DeleteBtn (t_id r))" tbl] d by auto
  ultimately show ?thesis using c d by simp
qed


theorem ownership_isolation_witness:
  "distinct (map t_id (t_rows sample_tasks)) \<and> alice_task \<in> set (t_rows sample_tasks) \<and>
   user_id alice_task \<noteq> 8 \<and>
   complete_stmt 1 8 sample_tasks = sample_tasks \<and>
   delete_stmt 1 8 sample_tasks = sample_tasks \<and>
   display_tasks [alice_task] 8 (Some (CompleteBtn 1)) sample_tasks = sample_tasks \<and>
   display_tasks [alice_task] 8 (Some (DeleteBtn 1)) sample_tasks = sample_tasks"
  using ownership_isolation [of sample_tasks alice_task 8 "[alice_task]"]
  by (simp add: sample_tasks_def alice_task_def bob_task_def)

text \<open>
  C7. Adding a task for \<open>uid\<close> with any text, due date and priority appends exactly one
  row to the table: it is owned by \<open>uid\<close>, has status Pending and the given text, due
  date and priority, and its id is not the id of any row already there. The rows already
  there are left as they were. There is no failing case: an empty text or a due date in
  the past is stored like any other.
\<close>

theorem add_task_inserts_one:
  "\<exists>r. t_rows (add_task uid txt due prio tbl) = t_rows tbl @ [r] \<and>
        user_id r = uid \<and> task r = txt \<and> due_date r = due \<and> priority r = prio \<and>
        status r = ''Pending'' \<and> t_id r \<notin> set (map t_id (t_rows tbl))"
  using next_rowid_fresh [of "map t_id (t_rows tbl)" "t_seq tbl"]
  by (simp add: add_task_def Let_def)

lemma status_update_keeps_row:
  assumes "distinct (map t_id rows)" and "r \<in> set rows"
    and f: "\<And>x. f x = x\<lparr>status := status (f x)\<rparr>"
  shows "(\<forall>r' \<in> set (map f rows). t_id r' = t_id r \<longrightarrow> r' = r\<lparr>status := status r'\<rparr>) \<and>
         (\<exists>r' \<in> set (map f rows). t_id r' = t_id r)"
proof -
  have id_f: "t_id (f x) = t_id x" for x
    by (subst f) simp
  have "r' = r\<lparr>status := status r'\<rparr>" if "r' \<in> set (map f rows)" and "t_id r' = t_id r" for r'
  proof -
    from that obtain x where x: "x \<in> set rows" "r' = f x" by auto
    with that id_f have "t_id x = t_id r" by simp
    with assms x have "x = r" by (simp add: same_id_same_row)
    with x f [of r] show ?thesis by simp
  qed
  moreover have "f r \<in> set (map f rows) \<and> t_id (f r) = t_id r"
    using assms id_f by simp
  ultimately show ?thesis by blast
qed

lemma reconcile_keeps_row:
  assumes "distinct (map t_id (t_rows tbl))" and "r \<in> set (t_rows tbl)"
  shows "(\<forall>r' \<in> set (t_rows (update_overdue_tasks uid today tbl)).
            t_id r' = t_id r \<longrightarrow> r' = r\<lparr>status := status r'\<rparr>) \<and>
         (\<exists>r' \<in> set (t_rows (update_overdue_tasks uid today tbl)). t_id r' = t_id r)"
proof -
  define f :: "task_row \<Rightarrow> task_row" where "f = (\<lambda>r. if user_id r = uid \<and> status r = ''Pending'' \<and> sql_lt (due_date r) today
                then r\<lparr>status := ''Overdue''\<rparr> else r)"
  have rows: "t_rows (update_overdue_tasks uid today tbl) = map f (t_rows tbl)"
    by (simp add: update_overdue_tasks_def f_def)
  have "f x = x\<lparr>status := status (f x)\<rparr>" for x
    by (simp add: f_def)
  from status_update_keeps_row [OF assms this] show ?thesis
    unfolding rows .
qed

lemma complete_keeps_row:
  assumes "distinct (map t_id (t_rows tbl))" and "r \<in> set (t_rows tbl)"
  shows "(\<forall>r' \<in> set (t_rows (complete_stmt tid uid tbl)).
            t_id r' = t_id r \<longrightarrow> r' = r\<lparr>status := status r'\<rparr>) \<and>
         (\<exists>r' \<in> set (t_rows (complete_stmt tid uid tbl)). t_id r' = t_id r)"
proof -
  define f :: "task_row \<Rightarrow> task_row" where "f = (\<lambda>r. if t_id r = tid \<and> user_id r = uid
                then r\<lparr>status := ''Completed''\<rparr> else r)"
  have rows: "t_rows (complete_stmt tid uid tbl) = map f (t_rows tbl)"
    by (simp add: complete_stmt_def f_def)
  have "f x = x\<lparr>status := status (f x)\<rparr>" for x
    by (simp add: f_def)
  from status_update_keeps_row [OF assms this] show ?thesis
    unfolding rows .
qed

lemma delete_keeps_row:
  assumes "distinct (map t_id (t_rows tbl))" and "r \<in> set (t_rows tbl)"
  shows "(\<forall>r' \<in> set (t_rows (delete_stmt tid uid tbl)).
            t_id r' = t_id r \<longrightarrow> r' = r\<lparr>status := status r'\<rparr>) \<and>
         ((\<exists>r' \<in> set (t_rows (delete_stmt tid uid tbl)). t_id r' = t_id r) \<or>
          (tid = t_id r \<and> uid = user_id r))"
proof -
  have "r' = r\<lparr>status := status r'\<rparr>"
    if "r' \<in> set (t_rows (delete_stmt tid uid tbl))" and "t_id r' = t_id r" for r'
  proof -
    from that assms have "r' = r" by (simp add: delete_stmt_def same_id_same_row)
    then show ?thesis by simp
  qed
  moreover have "r \<in> set (t_rows (delete_stmt tid uid tbl))" if "\<not> (tid = t_id r \<and> uid = user_id r)"
    using that assms by (auto simp: delete_stmt_def)
  ultimately show ?thesis by blast
qed

lemma add_keeps_row:
  assumes "distinct (map t_id (t_rows tbl))" and "r \<in> set (t_rows tbl)"
  shows "(\<forall>r' \<in> set (t_rows (add_task uid txt due prio tbl)).
            t_id r' = t_id r \<longrightarrow> r' = r\<lparr>status := status r'\<rparr>) \<and>
         (\<exists>r' \<in> set (t_rows (add_task uid txt due prio tbl)). t_id r' = t_id r)"
proof -
  have "t_id r \<in> set (map t_id (t_rows tbl))" using assms by simp
  then have fresh: "next_rowid (map t_id (t_rows tbl)) (t_seq tbl) \<noteq> t_id r"
    using next_rowid_fresh by metis
  have "r' = r\<lparr>status := status r'\<rparr>"
    if "r' \<in> set (t_rows (add_task uid txt due prio tbl))" and "t_id r' = t_id r" for r'
  proof -
    from that fresh have "r' \<in> set (t_rows tbl)" by (auto simp: add_task_def Let_def)
    with that assms have "r' = r" by (simp add: same_id_same_row)
    then show ?thesis by simp
  qed
  moreover have "r \<in> set (t_rows (add_task uid txt due prio tbl))"
    using assms by (simp add: add_task_def Let_def)
  ultimately show ?thesis by blast
qed

text \<open>
  C9. Field immutability. Let \<open>r\<close> be a row of the table and \<open>op\<close> any of reconciliation,
  complete, delete and add, with any arguments. After \<open>op\<close>, a row with the id of \<open>r\<close> is
  \<open>r\<close> itself up to its status: id, owner, text, due date and priority are those of \<open>r\<close>.
  And such a row exists, unless \<open>op\<close> is the deletion of \<open>r\<close> by its owner.
\<close>

theorem fields_immutable:
  assumes "distinct (map t_id (t_rows tbl))" and "r \<in> set (t_rows tbl)"
  shows "(\<forall>r' \<in> set (t_rows (apply_op op tbl)).
            t_id r' = t_id r \<longrightarrow> r' = r\<lparr>status := status r'\<rparr>) \<and>
         ((\<exists>r' \<in> set (t_rows (apply_op op tbl)). t_id r' = t_id r) \<or>
          op = Delete (t_id r) (user_id r))"
proof (cases op)
  case (Reconcile uid today)
  then show ?thesis using reconcile_keeps_row [OF assms, of uid today] by simp
next
  case (Complete tid uid)
  then show ?thesis using complete_keeps_row [OF assms, of tid uid] by simp
next
  case (Delete tid uid)
  then show ?thesis using delete_keeps_row [OF assms, of tid uid] by auto
next
  case (Add uid tx due prio)
  then show ?thesis using add_keeps_row [OF assms, of uid tx due prio] by simp
qed

theorem fields_immutable_witness:
  "distinct (map t_id (t_rows sample_tasks)) \<and> alice_task \<in> set (t_rows sample_tasks) \<and>
   t_rows (apply_op (Complete 1 7) sample_tasks) = [alice_task\<lparr>status := ''Completed''\<rparr>, bob_task] \<and>
   t_rows (apply_op (Delete 1 7) sample_tasks) = [bob_task]"
  using fields_immutable [of sample_tasks alice_task "Complete 1 7"]
    fields_immutable [of sample_tasks alice_task "Delete 1 7"]
  by (simp add: sample_tasks_def alice_task_def bob_task_def complete_stmt_def delete_stmt_def)

text \<open>
  The primary-key property assumed above is kept by every operation.
\<close>

lemma apply_op_distinct:
  assumes "distinct (map t_id (t_rows tbl))"
  shows "distinct (map t_id (t_rows (apply_op op tbl)))"
proof (cases op)
  case (Reconcile uid today)
  have "map t_id (t_rows (update_overdue_tasks uid today tbl)) = map t_id (t_rows tbl)"
    by (simp add: update_overdue_tasks_def comp_def)
  with assms Reconcile show ?thesis by simp
next
  case (Complete tid uid)
  have "map t_id (t_rows (complete_stmt tid uid tbl)) = map t_id (t_rows tbl)"
    by (simp add: complete_stmt_def comp_def)
  with assms Complete show ?thesis by simp
next
  case (Delete tid uid)
  with assms show ?thesis by (simp add: delete_stmt_def distinct_map_filter)
next
  case (Add uid tx due prio)
  with assms next_rowid_fresh [of "map t_id (t_rows tbl)" "t_seq tbl"] show ?thesis
    by (simp add: add_task_def Let_def)
qed

section \<open>Properties of the CSV export\<close>

lemma column_pos_due_date: "column_pos ''due_date'' (make_frame tasks) = 3"
  by (simp add: column_pos_def make_frame_def df_columns_def)

lemma export_csv_empty:
  assumes "filter (\<lambda>r. user_id r = uid) (t_rows (f_table file)) = []"
  shows "export_csv to_dt uid status_filter file = None"
  using assms by (simp add: export_csv_def fetch_tasks_def make_frame_def)

lemma export_csv_nonempty:
  assumes "filter (\<lambda>r. user_id r = uid) (t_rows (f_table file)) \<noteq> []"
  shows "export_csv to_dt uid status_filter file =
         Some \<lparr>csv_header = df_columns,
               csv_records =
                 map (\<lambda>r. (select_star (f_layout file) r)
                             [3 := to_dt (select_star (f_layout file) r ! 3)])
                     (filter (\<lambda>r. user_id r = uid) (t_rows (f_table file)))\<rparr>"
proof -
  let ?tasks = "map (select_star (f_layout file)) (fetch_tasks uid (f_table file))"
  from assms have "df_rows (make_frame ?tasks) \<noteq> []"
    by (simp add: fetch_tasks_def make_frame_def)
  then have "export_csv to_dt uid status_filter file =
             Some (to_csv (convert_due_date to_dt (make_frame ?tasks)))"
    by (simp add: export_csv_def Let_def)
  moreover have "to_csv (convert_due_date to_dt (make_frame ?tasks)) =
        \<lparr>csv_header = df_columns,
         csv_records =
           map (\<lambda>r. (select_star (f_layout file) r)
                       [3 := to_dt (select_star (f_layout file) r ! 3)])
               (filter (\<lambda>r. user_id r = uid) (t_rows (f_table file)))\<rparr>"
    by (simp add: to_csv_def convert_due_date_def column_pos_due_date fetch_tasks_def comp_def)
       (simp add: make_frame_def)
  ultimately show ?thesis by simp
qed

text \<open>
  C8, as stated, at a user without tasks (\<open>N = 0\<close>): the statement asks for a CSV of one
  header row and no data rows, the page produces no CSV at all.
\<close>

theorem export_csv_counterexample:
  "fetch_tasks 9 sample_tasks = [] \<and>
   export_csv sample_to_datetime 9 ''All'' \<lparr>f_layout = PageLayout, f_table = sample_tasks\<rparr> = None"
  by (simp add: export_csv_def fetch_tasks_def make_frame_def sample_tasks_def alice_task_def
      bob_task_def)

text \<open>
  C8, amended. Let \<open>N\<close> be the number of stored tasks of the user. For every table, in
  either column order, and every setting of the status selector: when \<open>N = 0\<close> no CSV is
  produced; when \<open>N \<ge> 1\<close> the export produces a CSV whose header is the six columns id,
  user_id, task, due_date, priority, status and which has exactly \<open>N\<close> data records, one
  for each task of the user in table order, whatever its status, each with one field per
  column. Each record starts with the id, the owner and the text of its task; the other
  three fields are, on a table declared by the page, the converted due date, the priority
  and the status, and on an upgraded table the converted status, the stored due date and
  the priority (the labels go by position).
\<close>

theorem export_csv_rows:
  "(length (filter (\<lambda>r. user_id r = uid) (t_rows (f_table file))) = 0 \<longrightarrow>
      export_csv to_dt uid status_filter file = None) \<and>
   (0 < length (filter (\<lambda>r. user_id r = uid) (t_rows (f_table file))) \<longrightarrow>
      (\<exists>csv. export_csv to_dt uid status_filter file = Some csv \<and>
         length (csv_records csv) =
           length (filter (\<lambda>r. user_id r = uid) (t_rows (f_table file))) \<and>
         csv_header csv = [''id'', ''user_id'', ''task'', ''due_date'', ''priority'', ''status''] \<and>
         map hd (csv_records csv) =
           map (\<lambda>r. IntCell (t_id r)) (filter (\<lambda>r. user_id r = uid) (t_rows (f_table file))) \<and>
         list_all (\<lambda>rec. length rec = length (csv_header csv)) (csv_records csv) \<and>
         map (take 3) (csv_records csv) =
           map (\<lambda>r. [IntCell (t_id r), IntCell (user_id r), TextCell (task r)])
               (filter (\<lambda>r. user_id r = uid) (t_rows (f_table file))) \<and>
         (f_layout file = PageLayout \<longrightarrow>
            map (drop 3) (csv_records csv) =
              map (\<lambda>r. [to_dt (date_cell (due_date r)), TextCell (priority r), TextCell (status r)])
                  (filter (\<lambda>r. user_id r = uid) (t_rows (f_table file)))) \<and>
         (f_layout file = UpgradedLayout \<longrightarrow>
            map (drop 3) (csv_records csv) =
              map (\<lambda>r. [to_dt (TextCell (status r)), date_cell (due_date r), TextCell (priority r)])
                  (filter (\<lambda>r. user_id r = uid) (t_rows (f_table file))))))"
proof (cases "filter (\<lambda>r. user_id r = uid) (t_rows (f_table file)) = []")
  case True
  then show ?thesis by (simp add: export_csv_empty)
next
  case False
  note csv = export_csv_nonempty [OF False, of to_dt status_filter]
  show ?thesis
  proof (cases "f_layout file")
    case PageLayout
    with False csv show ?thesis
      by (simp add: df_columns_def comp_def list_all_iff)
  next
    case UpgradedLayout
    with False csv show ?thesis
      by (simp add: df_columns_def comp_def list_all_iff)
  qed
qed

theorem export_csv_rows_witness:
  "0 < length (filter (\<lambda>r. user_id r = 7) (t_rows sample_tasks)) \<and>
   length (filter (\<lambda>r. user_id r = 9) (t_rows sample_tasks)) = 0 \<and>
   export_csv sample_to_datetime 7 ''Completed'' \<lparr>f_layout = PageLayout, f_table = sample_tasks\<rparr> =
     Some \<lparr>csv_header = [''id'', ''user_id'', ''task'', ''due_date'', ''priority'', ''status''],
           csv_records = [[IntCell 1, IntCell 7, TextCell ''Read chapter 1'', Timestamp 99,
                           TextCell ''High'', TextCell ''Pending'']]\<rparr> \<and>
   export_csv sample_to_datetime 7 ''Completed''
       \<lparr>f_layout = UpgradedLayout, f_table = sample_tasks\<rparr> =
     Some \<lparr>csv_header = [''id'', ''user_id'', ''task'', ''due_date'', ''priority'', ''status''],
           csv_records = [[IntCell 1, IntCell 7, TextCell ''Read chapter 1'', NaT,
                           DateText 99, TextCell ''High'']]\<rparr> \<and>
   export_csv sample_to_datetime 9 ''Completed''
       \<lparr>f_layout = UpgradedLayout, f_table = sample_tasks\<rparr> = None"
  using export_csv_rows [of 7 "\<lparr>f_layout = PageLayout, f_table = sample_tasks\<rparr>"
      sample_to_datetime "''Completed''"]
    export_csv_rows [of 7 "\<lparr>f_layout = UpgradedLayout, f_table = sample_tasks\<rparr>"
      sample_to_datetime "''Completed''"]
    export_csv_rows [of 9 "\<lparr>f_layout = UpgradedLayout, f_table = sample_tasks\<rparr>"
      sample_to_datetime "''Completed''"]
  by (simp add: export_csv_def fetch_tasks_def to_csv_def df_columns_def make_frame_def
      convert_due_date_def column_pos_def date_cell_def Let_def
      sample_tasks_def alice_task_def bob_task_def)

section \<open>Properties of the credential store\<close>

lemma find_by_email:
  assumes "distinct (map email rows)" and "u \<in> set rows"
  shows "find (\<lambda>x. email x = email u) rows = Some u"
  using assms
proof (induction rows)
  case Nil
  then show ?case by simp
next
  case (Cons x rows)
  then show ?case by (cases "x = u") (auto simp: image_iff)
qed

text \<open>
  C6. Emails are unique in the table. Login with an email and a password returns the
  identity (id, username, email) of the user with that email when the password verifies
  against that user's stored hash (the \<^verbatim>\<open>auth.py\<close> variant returns that user's row);
  it returns the one value \<open>None\<close> both when no user has the email and when the password
  does not verify; and in every case the table is left as it was.
\<close>

theorem login_user_spec:
  assumes "distinct (map email (u_rows tbl))"
  shows "(\<forall>u \<in> set (u_rows tbl). email u = em \<and> checkpw pw (password u) \<longrightarrow>
            fst (login_user checkpw em pw tbl) = Some (u_id u, username u, email u) \<and>
            fst (auth_login_user checkpw em pw tbl) = Some u) \<and>
         ((\<forall>u \<in> set (u_rows tbl). email u \<noteq> em) \<longrightarrow>
            fst (login_user checkpw em pw tbl) = None \<and>
            fst (auth_login_user checkpw em pw tbl) = None) \<and>
         (\<forall>u \<in> set (u_rows tbl). email u = em \<and> \<not> checkpw pw (password u) \<longrightarrow>
            fst (login_user checkpw em pw tbl) = None \<and>
            fst (auth_login_user checkpw em pw tbl) = None) \<and>
         snd (login_user checkpw em pw tbl) = tbl \<and>
         snd (auth_login_user checkpw em pw tbl) = tbl"
proof -
  have found: "select_by_email em tbl = Some u" if "u \<in> set (u_rows tbl)" and "email u = em" for u
    using find_by_email [OF assms that(1)] that(2) by (simp add: select_by_email_def)
  have missing: "select_by_email em tbl = None" if "\<forall>u \<in> set (u_rows tbl). email u \<noteq> em"
    using that by (auto simp: select_by_email_def find_None_iff)
  have unchanged: "snd (login_user checkpw em pw tbl) = tbl \<and>
         snd (auth_login_user checkpw em pw tbl) = tbl"
    by (simp add: login_user_def auth_login_user_def split: option.split)
  show ?thesis
    using found missing unchanged
    by (auto simp: login_user_def auth_login_user_def)
qed


theorem login_user_spec_witness:
  "distinct (map email (u_rows (sample_users False))) \<and>
   alice \<in> set (u_rows (sample_users False)) \<and>
   sample_checkpw ''secret1'' (password alice) \<and> \<not> sample_checkpw ''guess'' (password alice) \<and>
   login_user sample_checkpw ''alice@x.com'' ''secret1'' (sample_users False) =
     (Some (1, ''alice'', ''alice@x.com''), sample_users False) \<and>
   auth_login_user sample_checkpw ''alice@x.com'' ''secret1'' (sample_users False) =
     (Some alice, sample_users False) \<and>
   login_user sample_checkpw ''alice@x.com'' ''guess'' (sample_users False) =
     (None, sample_users False) \<and>
   login_user sample_checkpw ''bob@x.com'' ''secret1'' (sample_users False) =
     (None, sample_users False)"
  using login_user_spec [where tbl = "sample_users False" and em = "''alice@x.com''"
      and checkpw = sample_checkpw and pw = "''secret1''"]
    login_user_spec [where tbl = "sample_users False" and em = "''alice@x.com''"
      and checkpw = sample_checkpw and pw = "''guess''"]
    login_user_spec [where tbl = "sample_users False" and em = "''bob@x.com''"
      and checkpw = sample_checkpw and pw = "''secret1''"]
  by (simp add: sample_users_def alice_def sample_checkpw_def prod_eq_iff)

lemma insert_user_ok:
  assumes "em \<notin> set (map email (u_rows tbl))"
    and "username_unique tbl \<longrightarrow> un \<notin> set (map username (u_rows tbl))"
  shows "insert_user un em hashed tbl =
         Inr (tbl\<lparr>u_rows := u_rows tbl @
                     [\<lparr>u_id = next_rowid (map u_id (u_rows tbl)) (u_seq tbl),
                       username = un, email = em, password = hashed\<rparr>],
                   u_seq := next_rowid (map u_id (u_rows tbl)) (u_seq tbl)\<rparr>)"
  using assms by (auto simp: insert_user_def Let_def)

lemma insert_user_refused:
  assumes "em \<in> set (map email (u_rows tbl)) \<or>
           (username_unique tbl \<and> un \<in> set (map username (u_rows tbl)))"
  shows "insert_user un em hashed tbl = Inl IntegrityError"
  using assms by (auto simp: insert_user_def)

lemma select_by_email_Some_iff:
  "(\<exists>u. select_by_email em tbl = Some u) \<longleftrightarrow> em \<in> set (map email (u_rows tbl))"
  by (cases "select_by_email em tbl")
     (auto simp: select_by_email_def find_None_iff find_Some_iff image_iff)

text \<open>What holds of the page's \<open>register_user\<close>: a taken email is refused and nothing is written.\<close>

lemma register_user_email_taken:
  assumes "em \<in> set (map email (u_rows tbl))"
  shows "register_user hashpw salt un em pw tbl = Inr (False, tbl)"
proof -
  from assms obtain u where "select_by_email em tbl = Some u"
    using select_by_email_Some_iff by blast
  then show ?thesis by (simp add: register_user_def)
qed

lemma register_user_email_fresh:
  assumes "em \<notin> set (map email (u_rows tbl))" and "\<not> username_unique tbl"
  shows "register_user hashpw salt un em pw tbl =
         Inr (True, tbl\<lparr>u_rows := u_rows tbl @
                     [\<lparr>u_id = next_rowid (map u_id (u_rows tbl)) (u_seq tbl),
                       username = un, email = em, password = hashpw pw salt\<rparr>],
                   u_seq := next_rowid (map u_id (u_rows tbl)) (u_seq tbl)\<rparr>)"
proof -
  from assms(1) have "select_by_email em tbl = None"
    using select_by_email_Some_iff [of em tbl] by (cases "select_by_email em tbl") auto
  with assms show ?thesis
    by (simp add: register_user_def Let_def insert_user_ok)
qed

text \<open>The \<open>register_user\<close> of \<^verbatim>\<open>auth.py\<close> on the table of \<^verbatim>\<open>db.py\<close> does refuse both.\<close>

lemma auth_register_user_spec:
  assumes "username_unique tbl"
  shows "auth_register_user hashpw salt un em pw tbl =
         (if em \<in> set (map email (u_rows tbl)) \<or> un \<in> set (map username (u_rows tbl))
          then (False, tbl)
          else (True, tbl\<lparr>u_rows := u_rows tbl @
                     [\<lparr>u_id = next_rowid (map u_id (u_rows tbl)) (u_seq tbl),
                       username = un, email = em, password = hashpw pw salt\<rparr>],
                   u_seq := next_rowid (map u_id (u_rows tbl)) (u_seq tbl)\<rparr>))"
  using assms by (auto simp: auth_register_user_def insert_user_def Let_def)

lemma register_user_old_schema_raises:
  assumes "em \<notin> set (map email (u_rows tbl))" and "username_unique tbl"
    and "un \<in> set (map username (u_rows tbl))"
  shows "register_user hashpw salt un em pw tbl = Inl IntegrityError"
proof -
  from assms(1) have "select_by_email em tbl = None"
    using select_by_email_Some_iff [of em tbl] by (cases "select_by_email em tbl") auto
  with assms show ?thesis
    by (simp add: register_user_def Let_def insert_user_refused)
qed

text \<open>
  C5, on the page's own \<open>register_user\<close> and table. Starting from the empty table,
  registering alice succeeds; registering a second user with the same username and
  another email succeeds too and writes a second row, where the specification has a
  failure and no write. (On a table declared by \<^verbatim>\<open>db.py\<close> the same call ends in an
  uncaught integrity error, see \<open>register_user_old_schema_raises\<close>; the variant in
  \<^verbatim>\<open>auth.py\<close> refuses it, see \<open>auth_register_user_spec\<close>.)
\<close>

theorem register_user_accepts_taken_username:
  "register_user sample_hashpw ''s1'' ''alice'' ''alice@x.com'' ''secret1'' (create_tables None) =
     Inr (True, sample_users False) \<and>
   ''alice'' \<in> set (map username (u_rows (sample_users False))) \<and>
   register_user sample_hashpw ''s2'' ''alice'' ''alice2@x.com'' ''secret2'' (sample_users False) =
     Inr (True, \<lparr>u_rows = [alice, \<lparr>u_id = 2, username = ''alice'', email = ''alice2@x.com'',
                                   password = ''s2secret2''\<rparr>],
                 u_seq = 2, username_unique = False\<rparr>)"
  by (simp add: register_user_def select_by_email_def insert_user_def next_rowid_def
      sample_users_def alice_def sample_hashpw_def Let_def)

text \<open>
  C10. On the table holding alice, each under its own table declaration, and the input
  with alice's username and a fresh email: \<^verbatim>\<open>auth.py\<close> returns \<open>False\<close> and writes nothing,
  the page returns \<open>True\<close> and writes a row.
\<close>

theorem register_user_implementations_differ:
  "db_create_tables None = \<lparr>u_rows = [], u_seq = 0, username_unique = True\<rparr> \<and>
   auth_register_user sample_hashpw ''s1'' ''alice'' ''alice@x.com'' ''secret1'' (db_create_tables None) =
     (True, sample_users True) \<and>
   auth_register_user sample_hashpw ''s2'' ''alice'' ''alice2@x.com'' ''secret2'' (sample_users True) =
     (False, sample_users True) \<and>
   register_user sample_hashpw ''s2'' ''alice'' ''alice2@x.com'' ''secret2'' (sample_users False) =
     Inr (True, \<lparr>u_rows = [alice, \<lparr>u_id = 2, username = ''alice'', email = ''alice2@x.com'',
                                   password = ''s2secret2''\<rparr>],
                 u_seq = 2, username_unique = False\<rparr>)"
  by (simp add: auth_register_user_def register_user_def select_by_email_def insert_user_def
      next_rowid_def sample_users_def alice_def sample_hashpw_def Let_def)

text \<open>Apart from a taken username with a fresh email the two agree.\<close>

lemma register_user_implementations_agree:
  assumes "u_rows ta = u_rows tb" and "u_seq ta = u_seq tb"
    and "username_unique ta" and "\<not> username_unique tb"
    and "un \<notin> set (map username (u_rows ta)) \<or> em \<in> set (map email (u_rows ta))"
  shows "\<exists>ok ta' tb'. auth_register_user hashpw salt un em pw ta = (ok, ta') \<and>
           register_user hashpw salt un em pw tb = Inr (ok, tb') \<and>
           u_rows ta' = u_rows tb' \<and> u_seq ta' = u_seq tb'"
proof (cases "em \<in> set (map email (u_rows ta))")
  case True
  then have "auth_register_user hashpw salt un em pw ta = (False, ta)"
    using assms(3) by (simp add: auth_register_user_spec)
  moreover from True assms(1) have "register_user hashpw salt un em pw tb = Inr (False, tb)"
    by (simp add: register_user_email_taken)
  ultimately show ?thesis using assms(1,2) by auto
next
  case False
  with assms(5) have un: "un \<notin> set (map username (u_rows ta))" by simp
  let ?row = "\<lparr>u_id = next_rowid (map u_id (u_rows ta)) (u_seq ta),
               username = un, email = em, password = hashpw pw salt\<rparr>"
  have "auth_register_user hashpw salt un em pw ta =
        (True, ta\<lparr>u_rows := u_rows ta @ [?row], u_seq := u_id ?row\<rparr>)"
    using False un assms(3) by (simp add: auth_register_user_spec)
  moreover have "register_user hashpw salt un em pw tb =
        Inr (True, tb\<lparr>u_rows := u_rows ta @ [?row], u_seq := u_id ?row\<rparr>)"
    using False assms(1,2,4) register_user_email_fresh [of em tb hashpw salt un pw] by simp
  ultimately show ?thesis by auto
qed

lemma users_ok_insert_user:
  assumes "users_ok tbl" and "insert_user un em hashed tbl = Inr tbl'"
  shows "users_ok tbl'"
  using assms next_rowid_fresh [of "map u_id (u_rows tbl)" "u_seq tbl"]
  by (auto simp: users_ok_def insert_user_def Let_def split: if_splits)

text \<open>
  The uniqueness of ids, emails and (where declared) usernames holds of a freshly created
  table and is kept by both registration functions.
\<close>

lemma users_ok_create_tables:
  "users_ok (create_tables None) \<and> users_ok (db_create_tables None)"
  by (simp add: users_ok_def)

lemma users_ok_register_user:
  assumes "users_ok tbl" and "register_user hashpw salt un em pw tbl = Inr (ok, tbl')"
  shows "users_ok tbl'"
proof (cases "select_by_email em tbl")
  case None
  with assms(2) obtain hashed where "insert_user un em hashed tbl = Inr tbl'"
    by (auto simp: register_user_def Let_def split: sum.splits)
  with assms(1) show ?thesis by (rule users_ok_insert_user)
next
  case (Some u)
  with assms show ?thesis by (simp add: register_user_def)
qed

lemma users_ok_auth_register_user:
  assumes "users_ok tbl"
  shows "users_ok (snd (auth_register_user hashpw salt un em pw tbl))"
proof (cases "insert_user un em (hashpw pw salt) tbl")
  case (Inl e)
  with assms show ?thesis
    by (cases e) (simp add: auth_register_user_def)
next
  case (Inr tbl')
  with assms users_ok_insert_user [of tbl un em "hashpw pw salt" tbl'] show ?thesis
    by (simp add: auth_register_user_def)
qed

section \<open>The scenario of the specification\<close>

text \<open>
  Alice registers and logs in, adds a task due on 2024-01-01 (day 738886), the page
  reconciles on 2024-06-01 (day 739038), she completes the task, the page reconciles
  again: the status goes Pending, Overdue, Completed and stays Completed.
\<close>

lemma specification_scenario:
  "register_user sample_hashpw ''s1'' ''alice'' ''alice@x.com'' ''secret1'' (create_tables None) =
     Inr (True, sample_users False) \<and>
   fst (login_user sample_checkpw ''alice@x.com'' ''secret1'' (sample_users False)) =
     Some (1, ''alice'', ''alice@x.com'') \<and>
   map status (t_rows (add_task 1 ''Read chapter 1'' (Some 738886) ''High'' \<lparr>t_rows = [], t_seq = 0\<rparr>)) =
     [''Pending''] \<and>
   map status (t_rows (update_overdue_tasks 1 739038
      (add_task 1 ''Read chapter 1'' (Some 738886) ''High'' \<lparr>t_rows = [], t_seq = 0\<rparr>))) =
     [''Overdue''] \<and>
   map status (t_rows (complete_stmt 1 1 (update_overdue_tasks 1 739038
      (add_task 1 ''Read chapter 1'' (Some 738886) ''High'' \<lparr>t_rows = [], t_seq = 0\<rparr>)))) =
     [''Completed''] \<and>
   map status (t_rows (update_overdue_tasks 1 739038 (complete_stmt 1 1 (update_overdue_tasks 1 739038
      (add_task 1 ''Read chapter 1'' (Some 738886) ''High'' \<lparr>t_rows = [], t_seq = 0\<rparr>))))) =
     [''Completed'']"
  by (simp add: register_user_def select_by_email_def insert_user_def next_rowid_def
      sample_users_def alice_def sample_hashpw_def sample_checkpw_def login_user_def
      add_task_def update_overdue_tasks_def complete_stmt_def Let_def)

end
